theory Spec2Isabelle
  imports Main
begin

section \<open>Python values, exceptions and subscripting\<close>

text \<open>
  The module \<^verbatim>\<open>paddlenlp/trl/extras/dataset_formatting.py\<close> works on three kinds of
  Python data: the rows handed to a formatter (\<^verbatim>\<open>examples\<close>), the declared schema of a
  dataset (\<^verbatim>\<open>dataset.features\<close>) and the tokenizer, whose \<^verbatim>\<open>apply_chat_template\<close>
  is outside the module.

  A dictionary is an association list with string keys; the lookup is \<open>map_of\<close>.
  Every exception the module can run into is a value of \<open>error\<close>, and a computation
  that may raise returns \<open>error + 'a\<close> with \<open>Inl\<close> for the exception.
\<close>

datatype error = KeyError | IndexError | TypeError | Raised string

datatype pyval =
    PStr string
  | PInt int
  | PNone
  | PList "pyval list"
  | PDict "(string \<times> pyval) list"

text \<open>\<^verbatim>\<open>obj[key]\<close> for a string key: only a dictionary accepts it.\<close>

fun py_getitem :: "pyval \<Rightarrow> string \<Rightarrow> error + pyval" where
  "py_getitem (PDict d) k = (case map_of d k of None \<Rightarrow> Inl KeyError | Some v \<Rightarrow> Inr v)"
| "py_getitem _ k = Inl TypeError"

text \<open>
  \<^verbatim>\<open>obj[i]\<close> for an index \<open>i \<ge> 0\<close> (the module only uses \<open>0\<close> and the values of
  \<^verbatim>\<open>range(n)\<close>). A list and a string raise \<^verbatim>\<open>IndexError\<close> out of range, a string
  yields the one-character string, a dictionary with string keys has no integer key.
\<close>

fun py_index :: "pyval \<Rightarrow> nat \<Rightarrow> error + pyval" where
  "py_index (PList xs) i = (if i < length xs then Inr (xs ! i) else Inl IndexError)"
| "py_index (PStr s) i = (if i < length s then Inr (PStr [s ! i]) else Inl IndexError)"
| "py_index (PDict d) i = Inl KeyError"
| "py_index _ i = Inl TypeError"

text \<open>\<^verbatim>\<open>isinstance(v, list)\<close> and \<^verbatim>\<open>len(v)\<close>.\<close>

fun isinstance_list :: "pyval \<Rightarrow> bool" where
  "isinstance_list (PList xs) = True"
| "isinstance_list _ = False"

fun py_len :: "pyval \<Rightarrow> error + nat" where
  "py_len (PList xs) = Inr (length xs)"
| "py_len (PStr s) = Inr (length s)"
| "py_len (PDict d) = Inr (length d)"
| "py_len _ = Inl TypeError"

section \<open>The tokenizer and the record of its calls\<close>

text \<open>
  The tokenizer is a parameter: \<^verbatim>\<open>tokenizer.apply_chat_template(conversation, tokenize=b)\<close>
  is \<open>tokenizer conversation b\<close>, and it may raise. Every call a formatter makes is
  recorded, with its arguments, in the order of the calls.
\<close>

type_synonym tokenizer = "pyval \<Rightarrow> bool \<Rightarrow> error + pyval"

type_synonym call = "pyval \<times> bool"

type_synonym 'a traced = "call list \<times> (error + 'a)"

type_synonym format_fn = "pyval \<Rightarrow> pyval traced"

definition apply_chat_template :: "tokenizer \<Rightarrow> pyval \<Rightarrow> bool \<Rightarrow> pyval traced" where
  "apply_chat_template tokenizer conversation tokenize =
     ([(conversation, tokenize)], tokenizer conversation tokenize)"

section \<open>The three formatters\<close>

subsection \<open>\<^verbatim>\<open>conversations_formatting_function\<close>\<close>

text \<open>
  The loop \<^verbatim>\<open>for i in range(len(examples[messages_field]))\<close>: the indexes still to
  visit, the list \<^verbatim>\<open>output_texts\<close> built so far and the calls made so far. Each
  iteration reads \<^verbatim>\<open>examples[messages_field][i]\<close> again and renders it.
\<close>

fun conversations_loop ::
  "tokenizer \<Rightarrow> string \<Rightarrow> pyval \<Rightarrow> nat list \<Rightarrow> pyval list \<Rightarrow> call list \<Rightarrow> pyval traced" where
  "conversations_loop tokenizer messages_field examples [] output_texts calls =
     (calls, Inr (PList output_texts))"
| "conversations_loop tokenizer messages_field examples (i # rest) output_texts calls =
     (case py_getitem examples messages_field of
        Inl e \<Rightarrow> (calls, Inl e)
      | Inr field \<Rightarrow>
          (case py_index field i of
             Inl e \<Rightarrow> (calls, Inl e)
           | Inr row \<Rightarrow>
               (case apply_chat_template tokenizer row False of
                  (c, Inl e) \<Rightarrow> (calls @ c, Inl e)
                | (c, Inr text) \<Rightarrow>
                    conversations_loop tokenizer messages_field examples rest
                      (output_texts @ [text]) (calls @ c))))"

definition conversations_formatting_function :: "tokenizer \<Rightarrow> string \<Rightarrow> format_fn" where
  "conversations_formatting_function tokenizer messages_field examples =
     (case py_getitem examples messages_field of
        Inl e \<Rightarrow> ([], Inl e)
      | Inr field \<Rightarrow>
          (case py_index field 0 of
             Inl e \<Rightarrow> ([], Inl e)
           | Inr first \<Rightarrow>
               if isinstance_list first then
                 (case py_len field of
                    Inl e \<Rightarrow> ([], Inl e)
                  | Inr n \<Rightarrow>
                      conversations_loop tokenizer messages_field examples [0..<n] [] [])
               else apply_chat_template tokenizer field False))"

subsection \<open>\<^verbatim>\<open>instructions_formatting_function\<close> and its \<^verbatim>\<open>src\<close>/\<^verbatim>\<open>tgt\<close> twin\<close>

text \<open>
  The two-message conversation
  \<^verbatim>\<open>[{"role": "user", "content": u}, {"role": "assistant", "content": a}]\<close>.
\<close>

definition converted_sample :: "pyval \<Rightarrow> pyval \<Rightarrow> pyval" where
  "converted_sample u a =
     PList [PDict [(''role'', PStr ''user''), (''content'', u)],
            PDict [(''role'', PStr ''assistant''), (''content'', a)]]"

text \<open>
  \<^verbatim>\<open>instructions_formatting_function\<close> and \<^verbatim>\<open>paddlenlp_instructions_formatting_function\<close>
  have the same body up to the two field names, which are the parameters \<open>uf\<close> (the user
  field, \<^verbatim>\<open>"prompt"\<close> or \<^verbatim>\<open>"src"\<close>) and \<open>af\<close> (the assistant field, \<^verbatim>\<open>"completion"\<close>
  or \<^verbatim>\<open>"tgt"\<close>) here. An iteration reads \<^verbatim>\<open>examples[uf][i]\<close>, then
  \<^verbatim>\<open>examples[af][i]\<close>, then renders.
\<close>

fun instructions_loop ::
  "tokenizer \<Rightarrow> string \<Rightarrow> string \<Rightarrow> pyval \<Rightarrow> nat list \<Rightarrow> pyval list \<Rightarrow> call list \<Rightarrow> pyval traced"
  where
  "instructions_loop tokenizer uf af examples [] output_texts calls =
     (calls, Inr (PList output_texts))"
| "instructions_loop tokenizer uf af examples (i # rest) output_texts calls =
     (case py_getitem examples uf of
        Inl e \<Rightarrow> (calls, Inl e)
      | Inr us \<Rightarrow>
          (case py_index us i of
             Inl e \<Rightarrow> (calls, Inl e)
           | Inr u \<Rightarrow>
               (case py_getitem examples af of
                  Inl e \<Rightarrow> (calls, Inl e)
                | Inr as \<Rightarrow>
                    (case py_index as i of
                       Inl e \<Rightarrow> (calls, Inl e)
                     | Inr a \<Rightarrow>
                         (case apply_chat_template tokenizer (converted_sample u a) False of
                            (c, Inl e) \<Rightarrow> (calls @ c, Inl e)
                          | (c, Inr text) \<Rightarrow>
                              instructions_loop tokenizer uf af examples rest
                                (output_texts @ [text]) (calls @ c))))))"

definition format_instructions :: "tokenizer \<Rightarrow> string \<Rightarrow> string \<Rightarrow> format_fn" where
  "format_instructions tokenizer uf af examples =
     (case py_getitem examples uf of
        Inl e \<Rightarrow> ([], Inl e)
      | Inr us \<Rightarrow>
          if isinstance_list us then
            (case py_len us of
               Inl e \<Rightarrow> ([], Inl e)
             | Inr n \<Rightarrow> instructions_loop tokenizer uf af examples [0..<n] [] [])
          else
            (case py_getitem examples af of
               Inl e \<Rightarrow> ([], Inl e)
             | Inr as \<Rightarrow> apply_chat_template tokenizer (converted_sample us as) False))"

definition instructions_formatting_function :: "tokenizer \<Rightarrow> format_fn" where
  "instructions_formatting_function tokenizer =
     format_instructions tokenizer ''prompt'' ''completion''"

definition paddlenlp_instructions_formatting_function :: "tokenizer \<Rightarrow> format_fn" where
  "paddlenlp_instructions_formatting_function tokenizer =
     format_instructions tokenizer ''src'' ''tgt''"

section \<open>Schemas and \<^verbatim>\<open>FORMAT_MAPPING\<close>\<close>

text \<open>
  A declared type is a \<^verbatim>\<open>Value(dtype, id)\<close>, a Python list of declared types or a Python
  dictionary of them. \<open>feature_eq\<close> is Python's \<^verbatim>\<open>==\<close> on them: a \<^verbatim>\<open>Value\<close> is a
  dataclass and compares by its fields, lists compare by length and then element by
  element, dictionaries by size and then key by key whatever the order of insertion,
  and values of different classes are unequal.
\<close>

datatype feature =
    Value string "string option"
  | FeatureList "feature list"
  | FeatureDict "(string \<times> feature) list"

function feature_eq :: "feature \<Rightarrow> feature \<Rightarrow> bool" where
  "feature_eq (Value d i) (Value d' i') = (d = d' \<and> i = i')"
| "feature_eq (FeatureList xs) (FeatureList ys) =
     (length xs = length ys \<and> list_all (\<lambda>(x, y). feature_eq x y) (zip xs ys))"
| "feature_eq (FeatureDict a) (FeatureDict b) =
     (length a = length b \<and>
      list_all (\<lambda>(k, v). case map_of b k of None \<Rightarrow> False | Some w \<Rightarrow> feature_eq v w) a)"
| "feature_eq (Value d i) (FeatureList ys) = False"
| "feature_eq (Value d i) (FeatureDict b) = False"
| "feature_eq (FeatureList xs) (Value d i) = False"
| "feature_eq (FeatureList xs) (FeatureDict b) = False"
| "feature_eq (FeatureDict a) (Value d i) = False"
| "feature_eq (FeatureDict a) (FeatureList ys) = False"
  by pat_completeness auto

termination feature_eq
proof (relation "measure (\<lambda>(a, b). size a)")
  show "wf (measure (\<lambda>(a, b). size a))" by simp
next
  fix xs ys :: "feature list" and z x y
  assume "z \<in> set (zip xs ys)" and "(x, y) = z"
  then have "x \<in> set xs" by (auto dest: set_zip_leftD)
  then have "size x < Suc (size_list size xs)"
    by (induction xs) auto
  then show "((x, y), FeatureList xs, FeatureList ys) \<in> measure (\<lambda>(a, b). size a)"
    by simp
next
  fix a b :: "(string \<times> feature) list" and z k v w
  assume "z \<in> set a" and "(k, v) = z" and "map_of b k = Some w"
  then have "(k, v) \<in> set a" by simp
  then have "size v < Suc (size_list (size_prod (\<lambda>_. 0) size) a)"
    by (induction a) auto
  then show "((v, w), FeatureDict a, FeatureDict b) \<in> measure (\<lambda>(a, b). size a)"
    by simp
qed

text \<open>
  The three templates, in the key order of the source, and the dictionary
  \<^verbatim>\<open>FORMAT_MAPPING\<close> that holds them.
\<close>

type_synonym features = "(string \<times> feature) list"

definition chatml :: feature where
  "chatml =
     FeatureList [FeatureDict [(''content'', Value ''string'' None),
                               (''role'', Value ''string'' None)]]"

definition instruction :: features where
  "instruction = [(''completion'', Value ''string'' None), (''prompt'', Value ''string'' None)]"

definition paddlenlp :: features where
  "paddlenlp = [(''src'', Value ''string'' None), (''tgt'', Value ''string'' None)]"

definition FORMAT_MAPPING :: features where
  "FORMAT_MAPPING =
     [(''chatml'', chatml),
      (''instruction'', FeatureDict instruction),
      (''paddlenlp'', FeatureDict paddlenlp)]"

text \<open>\<^verbatim>\<open>key in d\<close> and \<^verbatim>\<open>d[key]\<close> on a dictionary of declared types.\<close>

definition features_contains :: "string \<Rightarrow> features \<Rightarrow> bool" where
  "features_contains k d = (map_of d k \<noteq> None)"

definition features_getitem :: "features \<Rightarrow> string \<Rightarrow> error + feature" where
  "features_getitem d k = (case map_of d k of None \<Rightarrow> Inl KeyError | Some v \<Rightarrow> Inr v)"

section \<open>\<^verbatim>\<open>get_formatting_func_from_dataset\<close>\<close>

text \<open>
  The argument is any Python object; only an instance of \<^verbatim>\<open>Dataset\<close> has
  \<^verbatim>\<open>features\<close>. The result is the lines given to \<^verbatim>\<open>logging.info\<close>, in order, and
  either an exception or the returned value: \<open>None\<close> for Python's \<^verbatim>\<open>None\<close>, \<open>Some f\<close>
  for a formatter.
\<close>

datatype py_object = Dataset features | NotDataset pyval

type_synonym outcome = "string list \<times> (error + format_fn option)"

text \<open>
  The first statement of the body,
  \<^verbatim>\<open>if "messages" in dataset.features: if dataset.features["messages"] == ...: return ...\<close>.
  It has no \<^verbatim>\<open>else\<close>: \<open>None\<close> says that control falls through to the next statement,
  \<open>Some r\<close> that the function is left with \<open>r\<close>.
\<close>

definition messages_statement :: "features \<Rightarrow> tokenizer \<Rightarrow> outcome option" where
  "messages_statement fs tokenizer =
     (if features_contains ''messages'' fs then
        (case features_getitem fs ''messages'' of
           Inl e \<Rightarrow> Some ([], Inl e)
         | Inr t \<Rightarrow>
             (case features_getitem FORMAT_MAPPING ''chatml'' of
                Inl e \<Rightarrow> Some ([], Inl e)
              | Inr c \<Rightarrow>
                  if feature_eq t c then
                    Some ([''Formatting dataset with chatml format''],
                          Inr (Some (conversations_formatting_function tokenizer ''messages'')))
                  else None))
      else None)"

text \<open>
  The second statement: \<^verbatim>\<open>if "conversations" in dataset.features: ...\<close> with its two
  \<^verbatim>\<open>elif\<close> branches. The branches belong to this \<^verbatim>\<open>if\<close>, so they are reached only
  when \<^verbatim>\<open>conversations\<close> is not a field.
\<close>

definition conversations_statement :: "features \<Rightarrow> tokenizer \<Rightarrow> outcome option" where
  "conversations_statement fs tokenizer =
     (if features_contains ''conversations'' fs then
        (case features_getitem fs ''conversations'' of
           Inl e \<Rightarrow> Some ([], Inl e)
         | Inr t \<Rightarrow>
             (case features_getitem FORMAT_MAPPING ''chatml'' of
                Inl e \<Rightarrow> Some ([], Inl e)
              | Inr c \<Rightarrow>
                  if feature_eq t c then
                    Some ([''Formatting dataset with chatml format''],
                          Inr (Some (conversations_formatting_function tokenizer ''conversations'')))
                  else None))
      else
        (case features_getitem FORMAT_MAPPING ''instruction'' of
           Inl e \<Rightarrow> Some ([], Inl e)
         | Inr t \<Rightarrow>
             if feature_eq (FeatureDict fs) t then
               Some ([''Formatting dataset with instruction format''],
                     Inr (Some (instructions_formatting_function tokenizer)))
             else
               (case features_getitem FORMAT_MAPPING ''paddlenlp'' of
                  Inl e \<Rightarrow> Some ([], Inl e)
                | Inr t' \<Rightarrow>
                    if feature_eq (FeatureDict fs) t' then
                      Some ([], Inr (Some (paddlenlp_instructions_formatting_function tokenizer)))
                    else None)))"

definition get_formatting_func_from_dataset :: "py_object \<Rightarrow> tokenizer \<Rightarrow> outcome" where
  "get_formatting_func_from_dataset dataset tokenizer =
     (case dataset of
        Dataset fs \<Rightarrow>
          (case messages_statement fs tokenizer of
             Some r \<Rightarrow> r
           | None \<Rightarrow>
               (case conversations_statement fs tokenizer of
                  Some r \<Rightarrow> r
                | None \<Rightarrow> ([], Inr None)))
      | NotDataset v \<Rightarrow> ([], Inr None))"

text \<open>
  \<^verbatim>\<open>FORMAT_MAPPING\<close> is a global of the module, looked up again at each comparison. The
  same three definitions with the dictionary as the parameter \<open>mapping\<close> show which of
  its entries a call reads: a lookup that is made raises \<^verbatim>\<open>KeyError\<close> when the entry
  is missing, a lookup that is not made cannot.
\<close>

definition messages_statement_with ::
  "features \<Rightarrow> features \<Rightarrow> tokenizer \<Rightarrow> outcome option" where
  "messages_statement_with mapping fs tokenizer =
     (if features_contains ''messages'' fs then
        (case features_getitem fs ''messages'' of
           Inl e \<Rightarrow> Some ([], Inl e)
         | Inr t \<Rightarrow>
             (case features_getitem mapping ''chatml'' of
                Inl e \<Rightarrow> Some ([], Inl e)
              | Inr c \<Rightarrow>
                  if feature_eq t c then
                    Some ([''Formatting dataset with chatml format''],
                          Inr (Some (conversations_formatting_function tokenizer ''messages'')))
                  else None))
      else None)"

definition conversations_statement_with ::
  "features \<Rightarrow> features \<Rightarrow> tokenizer \<Rightarrow> outcome option" where
  "conversations_statement_with mapping fs tokenizer =
     (if features_contains ''conversations'' fs then
        (case features_getitem fs ''conversations'' of
           Inl e \<Rightarrow> Some ([], Inl e)
         | Inr t \<Rightarrow>
             (case features_getitem mapping ''chatml'' of
                Inl e \<Rightarrow> Some ([], Inl e)
              | Inr c \<Rightarrow>
                  if feature_eq t c then
                    Some ([''Formatting dataset with chatml format''],
                          Inr (Some (conversations_formatting_function tokenizer ''conversations'')))
                  else None))
      else
        (case features_getitem mapping ''instruction'' of
           Inl e \<Rightarrow> Some ([], Inl e)
         | Inr t \<Rightarrow>
             if feature_eq (FeatureDict fs) t then
               Some ([''Formatting dataset with instruction format''],
                     Inr (Some (instructions_formatting_function tokenizer)))
             else
               (case features_getitem mapping ''paddlenlp'' of
                  Inl e \<Rightarrow> Some ([], Inl e)
                | Inr t' \<Rightarrow>
                    if feature_eq (FeatureDict fs) t' then
                      Some ([], Inr (Some (paddlenlp_instructions_formatting_function tokenizer)))
                    else None)))"

definition get_formatting_func_from_dataset_with ::
  "features \<Rightarrow> py_object \<Rightarrow> tokenizer \<Rightarrow> outcome" where
  "get_formatting_func_from_dataset_with mapping dataset tokenizer =
     (case dataset of
        Dataset fs \<Rightarrow>
          (case messages_statement_with mapping fs tokenizer of
             Some r \<Rightarrow> r
           | None \<Rightarrow>
               (case conversations_statement_with mapping fs tokenizer of
                  Some r \<Rightarrow> r
                | None \<Rightarrow> ([], Inr None)))
      | NotDataset v \<Rightarrow> ([], Inr None))"

section \<open>Vocabulary of the properties\<close>

text \<open>
  The conditions the matcher decides on, as the specification names them: a field of the
  schema whose declared type equals the \<^verbatim>\<open>chatml\<close> template, and a schema that as a
  whole equals a template, both under Python's \<^verbatim>\<open>==\<close>.
\<close>

definition field_is_chatml :: "features \<Rightarrow> string \<Rightarrow> bool" where
  "field_is_chatml fs k = (case map_of fs k of None \<Rightarrow> False | Some t \<Rightarrow> feature_eq t chatml)"

definition schema_is :: "features \<Rightarrow> features \<Rightarrow> bool" where
  "schema_is fs template = feature_eq (FeatureDict fs) (FeatureDict template)"

text \<open>A record of calls in which no call asks for token ids.\<close>

definition untokenized :: "call list \<Rightarrow> bool" where
  "untokenized calls = list_all (\<lambda>(conversation, tokenize). tokenize = False) calls"

text \<open>
  A small tokenizer to run the formatters on concrete rows: it wraps the content of each
  message in angle brackets, answers with numbers when token ids are asked for, and
  raises on a conversation that is not a list.
\<close>

fun content_of :: "pyval \<Rightarrow> string" where
  "content_of (PDict d) = (case map_of d ''content'' of Some (PStr c) \<Rightarrow> c | _ \<Rightarrow> [])"
| "content_of _ = []"

definition demo_tokenizer :: tokenizer where
  "demo_tokenizer conversation tokenize =
     (case conversation of
        PList messages \<Rightarrow>
          if tokenize then Inr (PList (map (\<lambda>m. PInt (int (length (content_of m)))) messages))
          else Inr (PStr (concat (map (\<lambda>m. ''<'' @ content_of m @ ''>'') messages)))
      | _ \<Rightarrow> Inl (Raised ''conversation is not a list''))"

section \<open>The matcher, branch by branch\<close>

lemma FORMAT_MAPPING_lookup:
  "features_getitem FORMAT_MAPPING ''chatml'' = Inr chatml"
  "features_getitem FORMAT_MAPPING ''instruction'' = Inr (FeatureDict instruction)"
  "features_getitem FORMAT_MAPPING ''paddlenlp'' = Inr (FeatureDict paddlenlp)"
  by (simp_all add: features_getitem_def FORMAT_MAPPING_def)

lemma messages_statement_eq:
  "messages_statement fs tokenizer =
     (if field_is_chatml fs ''messages'' then
        Some ([''Formatting dataset with chatml format''],
              Inr (Some (conversations_formatting_function tokenizer ''messages'')))
      else None)"
  unfolding messages_statement_def FORMAT_MAPPING_lookup
  by (simp add: field_is_chatml_def features_contains_def features_getitem_def
      split: option.splits)

lemma conversations_statement_eq:
  "conversations_statement fs tokenizer =
     (if features_contains ''conversations'' fs then
        (if field_is_chatml fs ''conversations'' then
           Some ([''Formatting dataset with chatml format''],
                 Inr (Some (conversations_formatting_function tokenizer ''conversations'')))
         else None)
      else if schema_is fs instruction then
        Some ([''Formatting dataset with instruction format''],
              Inr (Some (instructions_formatting_function tokenizer)))
      else if schema_is fs paddlenlp then
        Some ([], Inr (Some (paddlenlp_instructions_formatting_function tokenizer)))
      else None)"
  unfolding conversations_statement_def FORMAT_MAPPING_lookup schema_is_def
  by (simp add: field_is_chatml_def features_contains_def features_getitem_def
      del: feature_eq.simps split: option.splits)

text \<open>
  The guarded lookups never raise, so on a \<^verbatim>\<open>Dataset\<close> the function is this decision
  list.
\<close>

lemma matcher_Dataset:
  "get_formatting_func_from_dataset (Dataset fs) tokenizer =
     (if field_is_chatml fs ''messages'' then
        ([''Formatting dataset with chatml format''],
         Inr (Some (conversations_formatting_function tokenizer ''messages'')))
      else if features_contains ''conversations'' fs then
        (if field_is_chatml fs ''conversations'' then
           ([''Formatting dataset with chatml format''],
            Inr (Some (conversations_formatting_function tokenizer ''conversations'')))
         else ([], Inr None))
      else if schema_is fs instruction then
        ([''Formatting dataset with instruction format''],
         Inr (Some (instructions_formatting_function tokenizer)))
      else if schema_is fs paddlenlp then
        ([], Inr (Some (paddlenlp_instructions_formatting_function tokenizer)))
      else ([], Inr None))"
  by (simp add: get_formatting_func_from_dataset_def messages_statement_eq
      conversations_statement_eq)

lemma matcher_NotDataset:
  "get_formatting_func_from_dataset (NotDataset v) tokenizer = ([], Inr None)"
  by (simp add: get_formatting_func_from_dataset_def)

text \<open>With the module's own dictionary the parameterised function is the function.\<close>

lemma with_FORMAT_MAPPING:
  "messages_statement_with FORMAT_MAPPING = messages_statement"
  "conversations_statement_with FORMAT_MAPPING = conversations_statement"
  "get_formatting_func_from_dataset_with FORMAT_MAPPING = get_formatting_func_from_dataset"
proof -
  show m: "messages_statement_with FORMAT_MAPPING = messages_statement"
    by (intro ext) (simp only: messages_statement_with_def messages_statement_def)
  show c: "conversations_statement_with FORMAT_MAPPING = conversations_statement"
    by (intro ext) (simp only: conversations_statement_with_def conversations_statement_def)
  show "get_formatting_func_from_dataset_with FORMAT_MAPPING = get_formatting_func_from_dataset"
    by (intro ext)
      (simp only: get_formatting_func_from_dataset_with_def get_formatting_func_from_dataset_def
        m c)
qed

text \<open>
  The templates are read where the code compares with them: for a schema without
  \<^verbatim>\<open>messages\<close> and \<^verbatim>\<open>conversations\<close> a dictionary without the \<^verbatim>\<open>instruction\<close> entry
  makes the comparison raise.
\<close>

lemma instruction_entry_read_without_conversations:
  "get_formatting_func_from_dataset_with [(''chatml'', chatml)]
     (Dataset [(''text'', Value ''string'' None)]) demo_tokenizer = ([], Inl KeyError)"
  by (simp add: get_formatting_func_from_dataset_with_def messages_statement_with_def
      conversations_statement_with_def features_contains_def features_getitem_def)

text \<open>A schema equal to a template has no field the template lacks.\<close>

lemma schema_is_keys:
  assumes "schema_is fs template" and "map_of template k = None"
  shows "map_of fs k = None"
proof (rule ccontr)
  assume "map_of fs k \<noteq> None"
  then obtain v where "(k, v) \<in> set fs" by (auto dest: map_of_SomeD)
  moreover from assms(1)
  have "list_all (\<lambda>(k, v). case map_of template k of None \<Rightarrow> False | Some w \<Rightarrow> feature_eq v w) fs"
    by (simp add: schema_is_def)
  ultimately show False using assms(2) by (auto simp: list_all_iff)
qed

lemma schema_is_no_field:
  assumes "schema_is fs template" and "map_of template k = None"
  shows "\<not> features_contains k fs" and "\<not> field_is_chatml fs k"
  using schema_is_keys [OF assms] by (simp_all add: features_contains_def field_is_chatml_def)

lemma field_is_chatml_contains:
  "field_is_chatml fs k \<Longrightarrow> features_contains k fs"
  by (simp add: field_is_chatml_def features_contains_def split: option.splits)

lemma instruction_not_paddlenlp:
  "schema_is fs instruction \<Longrightarrow> \<not> schema_is fs paddlenlp"
  apply (cases fs)
   apply (simp add: schema_is_def instruction_def)
  apply (auto simp: schema_is_def instruction_def paddlenlp_def split: if_splits)
  done

text \<open>
  A schema with a \<^verbatim>\<open>conversations\<close> field equals neither the instruction nor the
  source-target template, so the two \<^verbatim>\<open>elif\<close> branches lose no dataset by hanging on
  the \<^verbatim>\<open>conversations\<close> test.
\<close>

lemma conversations_field_excludes_templates:
  assumes "features_contains ''conversations'' fs"
  shows "\<not> schema_is fs instruction" and "\<not> schema_is fs paddlenlp"
  using assms schema_is_no_field(1) [of fs instruction "''conversations''"]
    schema_is_no_field(1) [of fs paddlenlp "''conversations''"]
  by (auto simp: instruction_def paddlenlp_def)

lemma matcher_instruction:
  assumes "schema_is fs instruction"
  shows "get_formatting_func_from_dataset (Dataset fs) tokenizer =
           ([''Formatting dataset with instruction format''],
            Inr (Some (instructions_formatting_function tokenizer)))"
proof -
  have "\<not> field_is_chatml fs ''messages''" "\<not> features_contains ''conversations'' fs"
    using schema_is_no_field [OF assms] by (simp_all add: instruction_def)
  with assms show ?thesis by (simp add: matcher_Dataset)
qed

lemma matcher_paddlenlp:
  assumes "schema_is fs paddlenlp"
  shows "get_formatting_func_from_dataset (Dataset fs) tokenizer =
           ([], Inr (Some (paddlenlp_instructions_formatting_function tokenizer)))"
proof -
  have "\<not> field_is_chatml fs ''messages''" "\<not> features_contains ''conversations'' fs"
    using schema_is_no_field [OF assms] by (simp_all add: paddlenlp_def)
  moreover have "\<not> schema_is fs instruction"
    using assms instruction_not_paddlenlp by blast
  ultimately show ?thesis using assms by (simp add: matcher_Dataset)
qed

section \<open>Properties of the matcher\<close>

text \<open>
  Claim C3. First match wins: when the schema has a field \<^verbatim>\<open>messages\<close> whose declared
  type equals the \<^verbatim>\<open>chatml\<close> template, the matcher logs the chatml line once and
  returns the conversations formatter bound to \<^verbatim>\<open>"messages"\<close>, whatever the other
  fields of the schema are: no later check can change the result.
\<close>

theorem C3_messages_first_match:
  assumes "map_of fs ''messages'' = Some t" and "feature_eq t chatml"
  shows "get_formatting_func_from_dataset (Dataset fs) tokenizer =
           ([''Formatting dataset with chatml format''],
            Inr (Some (conversations_formatting_function tokenizer ''messages'')))"
  using assms by (simp add: matcher_Dataset field_is_chatml_def)

text \<open>
  An instance: \<^verbatim>\<open>messages\<close> is chatml and \<^verbatim>\<open>conversations\<close> is chatml too; the formatter
  is bound to \<^verbatim>\<open>"messages"\<close>.
\<close>

theorem C3_messages_first_match_witness:
  "get_formatting_func_from_dataset
     (Dataset [(''conversations'', chatml), (''messages'', chatml)]) demo_tokenizer =
       ([''Formatting dataset with chatml format''],
        Inr (Some (conversations_formatting_function demo_tokenizer ''messages'')))"
  using C3_messages_first_match
    [of "[(''conversations'', chatml), (''messages'', chatml)]" chatml demo_tokenizer]
  by (simp add: chatml_def)

text \<open>
  Claim C1. The \<^verbatim>\<open>conversations\<close> membership test guards the instruction and the
  source-target comparison. For every schema with a field \<^verbatim>\<open>conversations\<close> whose
  declared type differs from the \<^verbatim>\<open>chatml\<close> template, the statement of lines 119 to 127
  falls through to \<^verbatim>\<open>return None\<close> without reading the \<^verbatim>\<open>instruction\<close> or the
  \<^verbatim>\<open>paddlenlp\<close> entry of the dictionary: this holds for every dictionary with the chatml
  entry, also one that lacks the two entries (a lookup would raise) and one whose
  instruction entry equals the whole schema (a comparison would succeed). Hence, when
  the \<^verbatim>\<open>messages\<close> check before it has not returned, the matcher returns \<^verbatim>\<open>None\<close> and
  logs nothing.
\<close>

theorem C1_conversations_guard:
  assumes "map_of fs ''conversations'' = Some t" and "\<not> feature_eq t chatml"
    and "features_getitem mapping ''chatml'' = Inr chatml"
  shows "conversations_statement_with mapping fs tokenizer = None
         \<and> (\<not> field_is_chatml fs ''messages'' \<longrightarrow>
              get_formatting_func_from_dataset_with mapping (Dataset fs) tokenizer
                = ([], Inr None)
              \<and> get_formatting_func_from_dataset (Dataset fs) tokenizer = ([], Inr None))"
proof (intro conjI impI)
  show guard: "conversations_statement_with mapping fs tokenizer = None"
    using assms
    by (simp add: conversations_statement_with_def features_contains_def features_getitem_def)
  assume "\<not> field_is_chatml fs ''messages''"
  then have "messages_statement_with mapping fs tokenizer = None"
    using assms(3)
    by (auto simp: messages_statement_with_def field_is_chatml_def features_contains_def
        features_getitem_def split: option.splits)
  with guard
  show "get_formatting_func_from_dataset_with mapping (Dataset fs) tokenizer = ([], Inr None)"
    by (simp add: get_formatting_func_from_dataset_with_def)
  from \<open>\<not> field_is_chatml fs ''messages''\<close> assms(1,2)
  show "get_formatting_func_from_dataset (Dataset fs) tokenizer = ([], Inr None)"
    by (simp add: matcher_Dataset field_is_chatml_def features_contains_def)
qed

text \<open>
  An instance: the dictionary has no \<^verbatim>\<open>paddlenlp\<close> entry and its \<^verbatim>\<open>instruction\<close> entry is
  the schema of the dataset itself.
\<close>

theorem C1_conversations_guard_witness:
  "conversations_statement_with
     [(''chatml'', chatml),
      (''instruction'', FeatureDict [(''conversations'', Value ''string'' None)])]
     [(''conversations'', Value ''string'' None)] demo_tokenizer = None
   \<and> get_formatting_func_from_dataset_with
     [(''chatml'', chatml),
      (''instruction'', FeatureDict [(''conversations'', Value ''string'' None)])]
     (Dataset [(''conversations'', Value ''string'' None)]) demo_tokenizer = ([], Inr None)
   \<and> get_formatting_func_from_dataset
     (Dataset [(''conversations'', Value ''string'' None)]) demo_tokenizer = ([], Inr None)"
  using C1_conversations_guard
    [of "[(''conversations'', Value ''string'' None)]" "Value ''string'' None"
      "[(''chatml'', chatml),
        (''instruction'', FeatureDict [(''conversations'', Value ''string'' None)])]"
      demo_tokenizer]
  by (simp add: field_is_chatml_def chatml_def features_getitem_def)

text \<open>
  Claim C6. An input that matches none of the templates (no chatml \<^verbatim>\<open>messages\<close> field, no
  chatml \<^verbatim>\<open>conversations\<close> field, a schema equal neither to the instruction nor to the
  source-target template) yields \<^verbatim>\<open>None\<close>; so does an input that is not a \<^verbatim>\<open>Dataset\<close>;
  and on no input at all does the matcher raise.
\<close>

theorem C6_no_match_is_None:
  "(\<not> field_is_chatml fs ''messages'' \<and> \<not> field_is_chatml fs ''conversations'' \<and>
    \<not> schema_is fs instruction \<and> \<not> schema_is fs paddlenlp \<longrightarrow>
      get_formatting_func_from_dataset (Dataset fs) tokenizer = ([], Inr None))
   \<and> get_formatting_func_from_dataset (NotDataset v) tokenizer = ([], Inr None)
   \<and> (\<forall>e. snd (get_formatting_func_from_dataset dataset tokenizer) \<noteq> Inl e)"
proof (intro conjI impI allI)
  assume "\<not> field_is_chatml fs ''messages'' \<and> \<not> field_is_chatml fs ''conversations'' \<and>
    \<not> schema_is fs instruction \<and> \<not> schema_is fs paddlenlp"
  then show "get_formatting_func_from_dataset (Dataset fs) tokenizer = ([], Inr None)"
    by (simp add: matcher_Dataset)
next
  show "get_formatting_func_from_dataset (NotDataset v) tokenizer = ([], Inr None)"
    by (rule matcher_NotDataset)
next
  fix e
  show "snd (get_formatting_func_from_dataset dataset tokenizer) \<noteq> Inl e"
    by (cases dataset) (simp_all add: matcher_Dataset matcher_NotDataset)
qed

theorem C6_no_match_is_None_witness:
  "get_formatting_func_from_dataset
     (Dataset [(''text'', Value ''string'' None)]) demo_tokenizer = ([], Inr None)
   \<and> get_formatting_func_from_dataset (NotDataset (PStr ''not a dataset'')) demo_tokenizer
       = ([], Inr None)"
  using C6_no_match_is_None
    [of "[(''text'', Value ''string'' None)]" demo_tokenizer "PStr ''not a dataset''"]
  by (simp add: field_is_chatml_def schema_is_def instruction_def paddlenlp_def)

text \<open>
  Claim C7. The matcher logs exactly one line on the \<^verbatim>\<open>messages\<close> chatml path, on the
  \<^verbatim>\<open>conversations\<close> chatml path and on the instruction path, and no line on the
  source-target path and when nothing matches.
\<close>

theorem C7_log_lines:
  "(field_is_chatml fs ''messages'' \<longrightarrow>
      fst (get_formatting_func_from_dataset (Dataset fs) tokenizer)
        = [''Formatting dataset with chatml format''])
   \<and> (\<not> field_is_chatml fs ''messages'' \<and> field_is_chatml fs ''conversations'' \<longrightarrow>
      fst (get_formatting_func_from_dataset (Dataset fs) tokenizer)
        = [''Formatting dataset with chatml format''])
   \<and> (schema_is fs instruction \<longrightarrow>
      fst (get_formatting_func_from_dataset (Dataset fs) tokenizer)
        = [''Formatting dataset with instruction format''])
   \<and> (schema_is fs paddlenlp \<longrightarrow>
      fst (get_formatting_func_from_dataset (Dataset fs) tokenizer) = [])
   \<and> (snd (get_formatting_func_from_dataset dataset tokenizer) = Inr None \<longrightarrow>
      fst (get_formatting_func_from_dataset dataset tokenizer) = [])"
proof (intro conjI impI)
  assume "field_is_chatml fs ''messages''"
  then show "fst (get_formatting_func_from_dataset (Dataset fs) tokenizer)
        = [''Formatting dataset with chatml format'']"
    by (simp add: matcher_Dataset)
next
  assume "\<not> field_is_chatml fs ''messages'' \<and> field_is_chatml fs ''conversations''"
  then show "fst (get_formatting_func_from_dataset (Dataset fs) tokenizer)
        = [''Formatting dataset with chatml format'']"
    by (simp add: matcher_Dataset field_is_chatml_contains)
next
  assume "schema_is fs instruction"
  then show "fst (get_formatting_func_from_dataset (Dataset fs) tokenizer)
        = [''Formatting dataset with instruction format'']"
    by (simp add: matcher_instruction)
next
  assume "schema_is fs paddlenlp"
  then show "fst (get_formatting_func_from_dataset (Dataset fs) tokenizer) = []"
    by (simp add: matcher_paddlenlp)
next
  assume "snd (get_formatting_func_from_dataset dataset tokenizer) = Inr None"
  then show "fst (get_formatting_func_from_dataset dataset tokenizer) = []"
    by (cases dataset) (simp_all add: matcher_Dataset matcher_NotDataset split: if_splits)
qed

theorem C7_log_lines_witness:
  "fst (get_formatting_func_from_dataset (Dataset [(''messages'', chatml)]) demo_tokenizer)
     = [''Formatting dataset with chatml format'']
   \<and> fst (get_formatting_func_from_dataset (Dataset [(''conversations'', chatml)]) demo_tokenizer)
     = [''Formatting dataset with chatml format'']
   \<and> fst (get_formatting_func_from_dataset
        (Dataset [(''prompt'', Value ''string'' None), (''completion'', Value ''string'' None)])
        demo_tokenizer)
     = [''Formatting dataset with instruction format'']
   \<and> fst (get_formatting_func_from_dataset
        (Dataset [(''tgt'', Value ''string'' None), (''src'', Value ''string'' None)])
        demo_tokenizer) = []
   \<and> fst (get_formatting_func_from_dataset (Dataset [(''text'', Value ''string'' None)])
        demo_tokenizer) = []"
proof -
  have m: "field_is_chatml [(''messages'', chatml)] ''messages''"
    by (simp add: field_is_chatml_def chatml_def)
  have c: "\<not> field_is_chatml [(''conversations'', chatml)] ''messages'' \<and>
           field_is_chatml [(''conversations'', chatml)] ''conversations''"
    by (simp add: field_is_chatml_def chatml_def)
  have i: "schema_is [(''prompt'', Value ''string'' None), (''completion'', Value ''string'' None)]
             instruction"
    by (simp add: schema_is_def instruction_def)
  have p: "schema_is [(''tgt'', Value ''string'' None), (''src'', Value ''string'' None)] paddlenlp"
    by (simp add: schema_is_def paddlenlp_def)
  have n: "snd (get_formatting_func_from_dataset (Dataset [(''text'', Value ''string'' None)])
             demo_tokenizer) = Inr None"
    by (simp add: matcher_Dataset field_is_chatml_def features_contains_def schema_is_def
        instruction_def paddlenlp_def)
  note all = C7_log_lines [where tokenizer = demo_tokenizer]
  show ?thesis
    using all [where fs = "[(''messages'', chatml)]", THEN conjunct1, rule_format, OF m]
      all [where fs = "[(''conversations'', chatml)]", THEN conjunct2, THEN conjunct1,
        rule_format, OF c]
      all [where fs = "[(''prompt'', Value ''string'' None), (''completion'', Value ''string'' None)]",
        THEN conjunct2, THEN conjunct2, THEN conjunct1, rule_format, OF i]
      all [where fs = "[(''tgt'', Value ''string'' None), (''src'', Value ''string'' None)]",
        THEN conjunct2, THEN conjunct2, THEN conjunct2, THEN conjunct1, rule_format, OF p]
      all [where dataset = "Dataset [(''text'', Value ''string'' None)]",
        THEN conjunct2, THEN conjunct2, THEN conjunct2, THEN conjunct2, rule_format, OF n]
    by simp
qed

section \<open>The loops of the formatters\<close>

lemma map_upt_nth: "map (\<lambda>i. g (xs ! i)) [0..<length xs] = map g xs"
  by (rule nth_equalityI) simp_all

lemma list_all2_upt_nth:
  "list_all2 (\<lambda>i y. P (xs ! i) y) [0..<length xs] ys = list_all2 P xs ys"
proof -
  have "list_all2 (\<lambda>i y. P (xs ! i) y) [0..<length xs] ys
          = list_all2 P (map ((!) xs) [0..<length xs]) ys"
    by (simp add: list_all2_map1)
  then show ?thesis by (simp add: map_nth)
qed

lemma map_upt_zip:
  assumes "length us \<le> length as"
  shows "map (\<lambda>i. g (us ! i) (as ! i)) [0..<length us] = map (\<lambda>(u, a). g u a) (zip us as)"
  using assms by (intro nth_equalityI) simp_all

lemma list_all2_upt_zip:
  assumes "length us \<le> length as"
  shows "list_all2 (\<lambda>i y. P (us ! i) (as ! i) y) [0..<length us] ys
           = list_all2 (\<lambda>(u, a) y. P u a y) (zip us as) ys"
  using assms by (auto simp: list_all2_conv_all_nth)

text \<open>
  When every row is in range and renders, the loop visits the indexes in order, makes one
  call for each and appends one text for each.
\<close>

lemma conversations_loop_returns:
  assumes "py_getitem examples f = Inr (PList rows)"
    and "\<forall>i \<in> set is. i < length rows"
    and "list_all2 (\<lambda>i text. tokenizer (rows ! i) False = Inr text) is texts"
  shows "conversations_loop tokenizer f examples is out calls =
           (calls @ map (\<lambda>i. (rows ! i, False)) is, Inr (PList (out @ texts)))"
  using assms(2,3)
proof (induction "is" arbitrary: out calls texts)
  case Nil
  then show ?case by simp
next
  case (Cons i rest)
  from Cons.prems(2) obtain t ts where texts: "texts = t # ts"
    and t: "tokenizer (rows ! i) False = Inr t"
    and ts: "list_all2 (\<lambda>i text. tokenizer (rows ! i) False = Inr text) rest ts"
    by (auto simp: list_all2_Cons1)
  from Cons.prems(1) have i: "i < length rows" and rest: "\<forall>i \<in> set rest. i < length rows"
    by simp_all
  show ?case
    using Cons.IH [OF rest ts] assms(1) i t
    by (simp add: texts apply_chat_template_def)
qed

lemma conversations_batched:
  assumes field: "py_getitem examples f = Inr (PList (row # rows))"
    and first: "isinstance_list row"
    and texts: "list_all2 (\<lambda>r text. tokenizer r False = Inr text) (row # rows) texts"
  shows "conversations_formatting_function tokenizer f examples =
           (map (\<lambda>r. (r, False)) (row # rows), Inr (PList texts))"
proof -
  let ?rs = "row # rows"
  have "list_all2 (\<lambda>i text. tokenizer (?rs ! i) False = Inr text) [0..<length ?rs] texts"
    using texts
      list_all2_upt_nth [of "\<lambda>r text. tokenizer r False = Inr text" ?rs texts]
    by (simp only:)
  then have "conversations_loop tokenizer f examples [0..<length ?rs] [] [] =
           ([] @ map (\<lambda>i. (?rs ! i, False)) [0..<length ?rs], Inr (PList ([] @ texts)))"
    by (intro conversations_loop_returns [OF field]) simp_all
  moreover have "map (\<lambda>i. (?rs ! i, False)) [0..<length ?rs] = map (\<lambda>r. (r, False)) ?rs"
    by (rule map_upt_nth)
  ultimately have "conversations_loop tokenizer f examples [0..<length ?rs] [] [] =
           (map (\<lambda>r. (r, False)) ?rs, Inr (PList texts))"
    by simp
  then show ?thesis
    using field first by (simp add: conversations_formatting_function_def del: upt_Suc)
qed

lemma instructions_loop_returns:
  assumes "py_getitem examples uf = Inr (PList us)"
    and "py_getitem examples af = Inr (PList as)"
    and "\<forall>i \<in> set is. i < length us \<and> i < length as"
    and "list_all2 (\<lambda>i text. tokenizer (converted_sample (us ! i) (as ! i)) False = Inr text)
           is texts"
  shows "instructions_loop tokenizer uf af examples is out calls =
           (calls @ map (\<lambda>i. (converted_sample (us ! i) (as ! i), False)) is,
            Inr (PList (out @ texts)))"
  using assms(3,4)
proof (induction "is" arbitrary: out calls texts)
  case Nil
  then show ?case by simp
next
  case (Cons i rest)
  from Cons.prems(2) obtain t ts where texts: "texts = t # ts"
    and t: "tokenizer (converted_sample (us ! i) (as ! i)) False = Inr t"
    and ts: "list_all2 (\<lambda>i text. tokenizer (converted_sample (us ! i) (as ! i)) False = Inr text)
               rest ts"
    by (auto simp: list_all2_Cons1)
  from Cons.prems(1) have i: "i < length us" "i < length as"
    and rest: "\<forall>i \<in> set rest. i < length us \<and> i < length as"
    by simp_all
  show ?case
    using Cons.IH [OF rest ts] assms(1,2) i t
    by (simp add: texts apply_chat_template_def)
qed

lemma format_instructions_batched:
  assumes us: "py_getitem examples uf = Inr (PList us)"
    and as: "py_getitem examples af = Inr (PList as)"
    and len: "length us \<le> length as"
    and texts: "list_all2 (\<lambda>(u, a) text. tokenizer (converted_sample u a) False = Inr text)
                  (zip us as) texts"
  shows "format_instructions tokenizer uf af examples =
           (map (\<lambda>(u, a). (converted_sample u a, False)) (zip us as), Inr (PList texts))"
proof -
  have "list_all2 (\<lambda>i text. tokenizer (converted_sample (us ! i) (as ! i)) False = Inr text)
          [0..<length us] texts"
    using texts
      list_all2_upt_zip [OF len,
        of "\<lambda>u a text. tokenizer (converted_sample u a) False = Inr text" texts]
    by (simp only:)
  then have "instructions_loop tokenizer uf af examples [0..<length us] [] [] =
           ([] @ map (\<lambda>i. (converted_sample (us ! i) (as ! i), False)) [0..<length us],
            Inr (PList ([] @ texts)))"
    using len by (intro instructions_loop_returns [OF us as]) auto
  moreover have "map (\<lambda>i. (converted_sample (us ! i) (as ! i), False)) [0..<length us]
                   = map (\<lambda>(u, a). (converted_sample u a, False)) (zip us as)"
    by (rule map_upt_zip [OF len])
  ultimately show ?thesis
    using us by (simp add: format_instructions_def)
qed

lemma format_instructions_scalar:
  assumes "py_getitem examples uf = Inr u" and "\<not> isinstance_list u"
    and "py_getitem examples af = Inr a"
  shows "format_instructions tokenizer uf af examples =
           ([(converted_sample u a, False)], tokenizer (converted_sample u a) False)"
  using assms by (simp add: format_instructions_def apply_chat_template_def)

text \<open>Whatever happens in a loop, each call it adds is made with \<^verbatim>\<open>tokenize=False\<close>.\<close>

lemma untokenized_simps [simp]:
  "untokenized []"
  "untokenized (calls @ more) = (untokenized calls \<and> untokenized more)"
  "untokenized [(c, b)] = (\<not> b)"
  by (simp_all add: untokenized_def)

lemma conversations_loop_untokenized:
  "untokenized calls \<Longrightarrow>
     untokenized (fst (conversations_loop tokenizer f examples is out calls))"
  by (induction "is" arbitrary: out calls)
     (auto simp: apply_chat_template_def split: sum.splits)

lemma instructions_loop_untokenized:
  "untokenized calls \<Longrightarrow>
     untokenized (fst (instructions_loop tokenizer uf af examples is out calls))"
  by (induction "is" arbitrary: out calls)
     (auto simp: apply_chat_template_def split: sum.splits)

lemma format_instructions_untokenized:
  "untokenized (fst (format_instructions tokenizer uf af examples))"
  by (auto simp: format_instructions_def apply_chat_template_def
      instructions_loop_untokenized split: sum.splits)

text \<open>A loop that returns has appended one text for each index.\<close>

lemma instructions_loop_length:
  "snd (instructions_loop tokenizer uf af examples is out calls) = Inr v \<Longrightarrow>
     \<exists>texts. v = PList (out @ texts) \<and> length texts = length is"
proof (induction "is" arbitrary: out calls)
  case Nil
  then show ?case by simp
next
  case (Cons i rest)
  then show ?case
    by (fastforce simp: apply_chat_template_def split: sum.splits)
qed

text \<open>
  Two inputs with the same user field, whose assistant fields agree below \<open>n\<close>, take the
  loop through the same steps on indexes below \<open>n\<close>.
\<close>

lemma instructions_loop_cong:
  assumes "py_getitem ex uf = Inr (PList ps)" and "py_getitem ex' uf = Inr (PList ps)"
    and "py_getitem ex af = Inr (PList cs)" and "py_getitem ex' af = Inr (PList cs')"
    and "take n cs = take n cs'"
    and "\<forall>i \<in> set is. i < n"
  shows "instructions_loop tokenizer uf af ex is out calls =
         instructions_loop tokenizer uf af ex' is out calls"
  using assms(6)
proof (induction "is" arbitrary: out calls)
  case Nil
  then show ?case by simp
next
  case (Cons i rest)
  then have i: "i < n" and rest: "\<forall>i \<in> set rest. i < n" by simp_all
  have "length (take n cs) = length (take n cs')" using assms(5) by simp
  with i have len: "i < length cs \<longleftrightarrow> i < length cs'" by auto
  have "i < length cs \<Longrightarrow> cs ! i = cs' ! i"
    using i assms(5) by (metis nth_take)
  with len have "py_index (PList cs) i = py_index (PList cs') i" by simp
  then show ?case
    using Cons.IH [OF rest] assms(1-4)
    by (simp split: sum.splits prod.splits)
qed

lemma format_instructions_cong:
  assumes "py_getitem ex uf = Inr (PList ps)" and "py_getitem ex' uf = Inr (PList ps)"
    and "py_getitem ex af = Inr (PList cs)" and "py_getitem ex' af = Inr (PList cs')"
    and "take (length ps) cs = take (length ps) cs'"
  shows "format_instructions tokenizer uf af ex = format_instructions tokenizer uf af ex'"
  using assms(1,2) instructions_loop_cong [OF assms, of "[0..<length ps]" tokenizer "[]" "[]"]
  by (simp add: format_instructions_def)

lemma format_instructions_length:
  assumes "py_getitem ex uf = Inr (PList ps)"
    and "snd (format_instructions tokenizer uf af ex) = Inr v"
  shows "\<exists>texts. v = PList texts \<and> length texts = length ps"
  using assms instructions_loop_length [of tokenizer uf af ex "[0..<length ps]" "[]" "[]" v]
  by (simp add: format_instructions_def)

section \<open>Properties of the formatters\<close>

text \<open>
  Claim C9. The conversations formatter decides between a batch and a single conversation
  by reading element \<open>0\<close> of the bound field, so on a bound field that is the empty list
  it raises \<^verbatim>\<open>IndexError\<close>, before any call of the tokenizer, instead of returning an
  empty list.
\<close>

theorem C9_empty_field_raises:
  assumes "py_getitem examples messages_field = Inr (PList [])"
  shows "conversations_formatting_function tokenizer messages_field examples
           = ([], Inl IndexError)"
  using assms by (simp add: conversations_formatting_function_def)

theorem C9_empty_field_raises_witness:
  "conversations_formatting_function demo_tokenizer ''messages''
     (PDict [(''messages'', PList [])]) = ([], Inl IndexError)"
  using C9_empty_field_raises [of "PDict [(''messages'', PList [])]" "''messages''" demo_tokenizer]
  by simp

text \<open>
  Claim C5. On a scalar input (the field \<^verbatim>\<open>src\<close> is not a list) with fields \<^verbatim>\<open>src\<close> and
  \<^verbatim>\<open>tgt\<close>, the source-target formatter makes one call of the tokenizer, on the
  conversation of the user message \<^verbatim>\<open>src\<close> and the assistant message \<^verbatim>\<open>tgt\<close>, and
  returns what that call returns.
\<close>

theorem C5_source_target_scalar:
  assumes "py_getitem examples ''src'' = Inr src" and "\<not> isinstance_list src"
    and "py_getitem examples ''tgt'' = Inr tgt"
  shows "paddlenlp_instructions_formatting_function tokenizer examples =
           ([(PList [PDict [(''role'', PStr ''user''), (''content'', src)],
                     PDict [(''role'', PStr ''assistant''), (''content'', tgt)]], False)],
            tokenizer (PList [PDict [(''role'', PStr ''user''), (''content'', src)],
                              PDict [(''role'', PStr ''assistant''), (''content'', tgt)]]) False)"
  using format_instructions_scalar [OF assms, of tokenizer]
  by (simp add: paddlenlp_instructions_formatting_function_def converted_sample_def)

theorem C5_source_target_scalar_witness:
  "paddlenlp_instructions_formatting_function demo_tokenizer
     (PDict [(''src'', PStr ''hello''), (''tgt'', PStr ''hi'')]) =
       ([(PList [PDict [(''role'', PStr ''user''), (''content'', PStr ''hello'')],
                 PDict [(''role'', PStr ''assistant''), (''content'', PStr ''hi'')]], False)],
        Inr (PStr ''<hello><hi>''))"
  using C5_source_target_scalar
    [of "PDict [(''src'', PStr ''hello''), (''tgt'', PStr ''hi'')]" "PStr ''hello''" "PStr ''hi''"
      demo_tokenizer]
  by (simp add: demo_tokenizer_def)

text \<open>
  Claim C4. For a dataset whose schema is exactly \<^verbatim>\<open>{prompt: string, completion: string}\<close>
  the matcher returns the instruction formatter, and on a batched input (\<^verbatim>\<open>prompt\<close> a list
  of \<open>N\<close> entries, \<^verbatim>\<open>completion\<close> a list with an entry for each of them) whose rows the
  tokenizer renders, that formatter returns the list whose \<open>i\<close>-th element is the rendering
  of the user message \<^verbatim>\<open>prompt[i]\<close> followed by the assistant message
  \<^verbatim>\<open>completion[i]\<close>, in index order.
\<close>

theorem C4_instruction_batched:
  assumes "schema_is fs instruction"
    and "py_getitem examples ''prompt'' = Inr (PList ps)"
    and "py_getitem examples ''completion'' = Inr (PList cs)"
    and "length ps \<le> length cs"
    and "list_all2
           (\<lambda>(p, c) text.
              tokenizer (PList [PDict [(''role'', PStr ''user''), (''content'', p)],
                                PDict [(''role'', PStr ''assistant''), (''content'', c)]]) False
                = Inr text)
           (zip ps cs) texts"
  shows "snd (get_formatting_func_from_dataset (Dataset fs) tokenizer)
           = Inr (Some (instructions_formatting_function tokenizer))
         \<and> snd (instructions_formatting_function tokenizer examples) = Inr (PList texts)
         \<and> length texts = length ps"
proof -
  have texts: "list_all2 (\<lambda>(u, a) text. tokenizer (converted_sample u a) False = Inr text)
                 (zip ps cs) texts"
    using assms(5) by (simp add: converted_sample_def)
  have "length texts = length (zip ps cs)"
    using list_all2_lengthD [OF assms(5)] by simp
  then have "length texts = length ps"
    using assms(4) by simp
  then show ?thesis
    using format_instructions_batched [where tokenizer = tokenizer, OF assms(2,3,4) texts]
      matcher_instruction [OF assms(1)]
    by (simp add: instructions_formatting_function_def)
qed

theorem C4_instruction_batched_witness:
  "snd (get_formatting_func_from_dataset
     (Dataset [(''prompt'', Value ''string'' None), (''completion'', Value ''string'' None)])
     demo_tokenizer) = Inr (Some (instructions_formatting_function demo_tokenizer))
   \<and> snd (instructions_formatting_function demo_tokenizer
        (PDict [(''prompt'', PList [PStr ''a'', PStr ''b'']),
                (''completion'', PList [PStr ''x'', PStr ''y''])]))
       = Inr (PList [PStr ''<a><x>'', PStr ''<b><y>''])"
  using C4_instruction_batched
    [of "[(''prompt'', Value ''string'' None), (''completion'', Value ''string'' None)]"
      "PDict [(''prompt'', PList [PStr ''a'', PStr ''b'']),
              (''completion'', PList [PStr ''x'', PStr ''y''])]"
      "[PStr ''a'', PStr ''b'']" "[PStr ''x'', PStr ''y'']" demo_tokenizer
      "[PStr ''<a><x>'', PStr ''<b><y>'']"]
  by (simp add: schema_is_def instruction_def demo_tokenizer_def)

text \<open>
  Claim C2, as amended. Shape preservation on batched input whose rows the tokenizer
  renders: the instruction and the source-target formatter return exactly \<open>N\<close> texts for
  every \<open>N\<close>, also \<open>N = 0\<close>, where \<open>N\<close> is the length of \<^verbatim>\<open>prompt\<close> (of \<^verbatim>\<open>src\<close>) and the
  other field has the same length; the conversations formatter does so for every
  \<open>N \<ge> 1\<close>, the first row being a list. In each case the \<open>i\<close>-th text is the rendering of
  the \<open>i\<close>-th row.
\<close>

theorem C2_shape_preserved:
  "(py_getitem examples messages_field = Inr (PList (row # rows)) \<and> isinstance_list row \<and>
    list_all2 (\<lambda>r text. tokenizer r False = Inr text) (row # rows) texts \<longrightarrow>
      snd (conversations_formatting_function tokenizer messages_field examples)
        = Inr (PList texts)
      \<and> length texts = length (row # rows))
   \<and> (py_getitem examples ''prompt'' = Inr (PList ps) \<and>
      py_getitem examples ''completion'' = Inr (PList cs) \<and> length cs = length ps \<and>
      list_all2 (\<lambda>(p, c) text. tokenizer (converted_sample p c) False = Inr text)
        (zip ps cs) texts \<longrightarrow>
      snd (instructions_formatting_function tokenizer examples) = Inr (PList texts)
      \<and> length texts = length ps)
   \<and> (py_getitem examples ''src'' = Inr (PList ps) \<and>
      py_getitem examples ''tgt'' = Inr (PList cs) \<and> length cs = length ps \<and>
      list_all2 (\<lambda>(p, c) text. tokenizer (converted_sample p c) False = Inr text)
        (zip ps cs) texts \<longrightarrow>
      snd (paddlenlp_instructions_formatting_function tokenizer examples) = Inr (PList texts)
      \<and> length texts = length ps)"
proof (intro conjI impI)
  assume h: "py_getitem examples messages_field = Inr (PList (row # rows)) \<and>
    isinstance_list row \<and>
    list_all2 (\<lambda>r text. tokenizer r False = Inr text) (row # rows) texts"
  then have field: "py_getitem examples messages_field = Inr (PList (row # rows))"
    and first: "isinstance_list row"
    and texts: "list_all2 (\<lambda>r text. tokenizer r False = Inr text) (row # rows) texts"
    by blast+
  show "snd (conversations_formatting_function tokenizer messages_field examples)
        = Inr (PList texts)"
    using conversations_batched [where tokenizer = tokenizer, OF field first texts] by simp
  show "length texts = length (row # rows)"
    using list_all2_lengthD [OF texts] by simp
next
  assume "py_getitem examples ''prompt'' = Inr (PList ps) \<and>
      py_getitem examples ''completion'' = Inr (PList cs) \<and> length cs = length ps \<and>
      list_all2 (\<lambda>(p, c) text. tokenizer (converted_sample p c) False = Inr text)
        (zip ps cs) texts"
  then have us: "py_getitem examples ''prompt'' = Inr (PList ps)"
    and as: "py_getitem examples ''completion'' = Inr (PList cs)"
    and len: "length cs = length ps"
    and texts: "list_all2 (\<lambda>(p, c) text. tokenizer (converted_sample p c) False = Inr text)
                  (zip ps cs) texts"
    by blast+
  from len have le: "length ps \<le> length cs" by simp
  show "snd (instructions_formatting_function tokenizer examples) = Inr (PList texts)"
    using format_instructions_batched [where tokenizer = tokenizer, OF us as le texts]
    by (simp add: instructions_formatting_function_def)
  show "length texts = length ps"
    using list_all2_lengthD [OF texts] len by simp
next
  assume "py_getitem examples ''src'' = Inr (PList ps) \<and>
      py_getitem examples ''tgt'' = Inr (PList cs) \<and> length cs = length ps \<and>
      list_all2 (\<lambda>(p, c) text. tokenizer (converted_sample p c) False = Inr text)
        (zip ps cs) texts"
  then have us: "py_getitem examples ''src'' = Inr (PList ps)"
    and as: "py_getitem examples ''tgt'' = Inr (PList cs)"
    and len: "length cs = length ps"
    and texts: "list_all2 (\<lambda>(p, c) text. tokenizer (converted_sample p c) False = Inr text)
                  (zip ps cs) texts"
    by blast+
  from len have le: "length ps \<le> length cs" by simp
  show "snd (paddlenlp_instructions_formatting_function tokenizer examples) = Inr (PList texts)"
    using format_instructions_batched [where tokenizer = tokenizer, OF us as le texts]
    by (simp add: paddlenlp_instructions_formatting_function_def)
  show "length texts = length ps"
    using list_all2_lengthD [OF texts] len by simp
qed

text \<open>
  Instances: a batch of two conversations, and the empty batch for the instruction and
  the source-target formatter.
\<close>

theorem C2_shape_preserved_witness:
  "snd (conversations_formatting_function demo_tokenizer ''conversations''
     (PDict [(''conversations'',
        PList [PList [PDict [(''role'', PStr ''user''), (''content'', PStr ''a'')]],
               PList [PDict [(''role'', PStr ''user''), (''content'', PStr ''b'')],
                      PDict [(''role'', PStr ''assistant''), (''content'', PStr ''c'')]]])]))
     = Inr (PList [PStr ''<a>'', PStr ''<b><c>''])
   \<and> snd (instructions_formatting_function demo_tokenizer
        (PDict [(''prompt'', PList []), (''completion'', PList [])])) = Inr (PList [])
   \<and> snd (paddlenlp_instructions_formatting_function demo_tokenizer
        (PDict [(''src'', PList []), (''tgt'', PList [])])) = Inr (PList [])"
  using C2_shape_preserved
    [where tokenizer = demo_tokenizer and messages_field = "''conversations''"
       and examples = "PDict [(''conversations'',
        PList [PList [PDict [(''role'', PStr ''user''), (''content'', PStr ''a'')]],
               PList [PDict [(''role'', PStr ''user''), (''content'', PStr ''b'')],
                      PDict [(''role'', PStr ''assistant''), (''content'', PStr ''c'')]]])]"
       and row = "PList [PDict [(''role'', PStr ''user''), (''content'', PStr ''a'')]]"
       and rows = "[PList [PDict [(''role'', PStr ''user''), (''content'', PStr ''b'')],
                      PDict [(''role'', PStr ''assistant''), (''content'', PStr ''c'')]]]"
       and texts = "[PStr ''<a>'', PStr ''<b><c>'']", THEN conjunct1]
    C2_shape_preserved
    [where tokenizer = demo_tokenizer
       and examples = "PDict [(''prompt'', PList []), (''completion'', PList [])]"
       and ps = "[]" and cs = "[]" and texts = "[]", THEN conjunct2, THEN conjunct1]
    C2_shape_preserved
    [where tokenizer = demo_tokenizer
       and examples = "PDict [(''src'', PList []), (''tgt'', PList [])]"
       and ps = "[]" and cs = "[]" and texts = "[]", THEN conjunct2, THEN conjunct2]
  by (simp add: demo_tokenizer_def)

text \<open>
  For the conversations formatter the statement fails at \<open>N = 0\<close>: on the empty batch it
  raises \<^verbatim>\<open>IndexError\<close> and returns no list.
\<close>

theorem C2_counterexample:
  "py_getitem (PDict [(''conversations'', PList [])]) ''conversations'' = Inr (PList [])
   \<and> snd (conversations_formatting_function demo_tokenizer ''conversations''
        (PDict [(''conversations'', PList [])])) = Inl IndexError"
  by (simp add: conversations_formatting_function_def)

text \<open>
  Claim C8. Every call a formatter makes to the tokenizer has \<^verbatim>\<open>tokenize=False\<close>, on every
  input and also when the formatter ends in an exception; the matcher itself makes no
  call.
\<close>

theorem C8_tokenize_false:
  "untokenized (fst (conversations_formatting_function tokenizer messages_field examples))
   \<and> untokenized (fst (instructions_formatting_function tokenizer examples))
   \<and> untokenized (fst (paddlenlp_instructions_formatting_function tokenizer examples))"
proof (intro conjI)
  show "untokenized (fst (conversations_formatting_function tokenizer messages_field examples))"
    by (auto simp: conversations_formatting_function_def apply_chat_template_def
        conversations_loop_untokenized split: sum.splits)
  show "untokenized (fst (instructions_formatting_function tokenizer examples))"
    by (simp add: instructions_formatting_function_def format_instructions_untokenized)
  show "untokenized (fst (paddlenlp_instructions_formatting_function tokenizer examples))"
    by (simp add: paddlenlp_instructions_formatting_function_def
        format_instructions_untokenized)
qed

text \<open>An instance in which a call is made: the record of calls is not empty.\<close>

theorem C8_tokenize_false_witness:
  "untokenized (fst (instructions_formatting_function demo_tokenizer
     (PDict [(''prompt'', PStr ''a''), (''completion'', PStr ''x'')])))
   \<and> fst (instructions_formatting_function demo_tokenizer
        (PDict [(''prompt'', PStr ''a''), (''completion'', PStr ''x'')]))
       = [(converted_sample (PStr ''a'') (PStr ''x''), False)]"
  using C8_tokenize_false
    [of demo_tokenizer "''messages''" "PDict [(''prompt'', PStr ''a''), (''completion'', PStr ''x'')]"]
  by (simp add: instructions_formatting_function_def format_instructions_def
      apply_chat_template_def)

text \<open>
  Claim C10. On batched input the instruction formatter reads \<^verbatim>\<open>completion\<close> only at
  indexes below the length of \<^verbatim>\<open>prompt\<close>: two inputs with the same \<^verbatim>\<open>prompt\<close> list whose
  \<^verbatim>\<open>completion\<close> lists agree on the first \<^verbatim>\<open>len(prompt)\<close> entries give the same calls
  and the same result, and a returned list has exactly \<^verbatim>\<open>len(prompt)\<close> elements. The
  same holds of the source-target formatter with \<^verbatim>\<open>src\<close> and \<^verbatim>\<open>tgt\<close>.
\<close>

theorem C10_completion_read_below_length:
  "(py_getitem ex ''prompt'' = Inr (PList ps) \<and> py_getitem ex' ''prompt'' = Inr (PList ps) \<and>
    py_getitem ex ''completion'' = Inr (PList cs) \<and>
    py_getitem ex' ''completion'' = Inr (PList cs') \<and>
    take (length ps) cs = take (length ps) cs' \<longrightarrow>
      instructions_formatting_function tokenizer ex
        = instructions_formatting_function tokenizer ex'
      \<and> (\<forall>v. snd (instructions_formatting_function tokenizer ex) = Inr v \<longrightarrow>
            (\<exists>texts. v = PList texts \<and> length texts = length ps)))
   \<and> (py_getitem ex ''src'' = Inr (PList ps) \<and> py_getitem ex' ''src'' = Inr (PList ps) \<and>
    py_getitem ex ''tgt'' = Inr (PList cs) \<and>
    py_getitem ex' ''tgt'' = Inr (PList cs') \<and>
    take (length ps) cs = take (length ps) cs' \<longrightarrow>
      paddlenlp_instructions_formatting_function tokenizer ex
        = paddlenlp_instructions_formatting_function tokenizer ex'
      \<and> (\<forall>v. snd (paddlenlp_instructions_formatting_function tokenizer ex) = Inr v \<longrightarrow>
            (\<exists>texts. v = PList texts \<and> length texts = length ps)))"
proof (intro conjI impI allI)
  assume h: "py_getitem ex ''prompt'' = Inr (PList ps) \<and>
    py_getitem ex' ''prompt'' = Inr (PList ps) \<and>
    py_getitem ex ''completion'' = Inr (PList cs) \<and>
    py_getitem ex' ''completion'' = Inr (PList cs') \<and>
    take (length ps) cs = take (length ps) cs'"
  then show "instructions_formatting_function tokenizer ex
        = instructions_formatting_function tokenizer ex'"
    unfolding instructions_formatting_function_def
    by (intro format_instructions_cong [where ps = ps and cs = cs and cs' = cs']) simp_all
  fix v
  assume "snd (instructions_formatting_function tokenizer ex) = Inr v"
  with h show "\<exists>texts. v = PList texts \<and> length texts = length ps"
    unfolding instructions_formatting_function_def
    by (intro format_instructions_length [where ex = ex and tokenizer = tokenizer]) simp_all
next
  assume h: "py_getitem ex ''src'' = Inr (PList ps) \<and>
    py_getitem ex' ''src'' = Inr (PList ps) \<and>
    py_getitem ex ''tgt'' = Inr (PList cs) \<and>
    py_getitem ex' ''tgt'' = Inr (PList cs') \<and>
    take (length ps) cs = take (length ps) cs'"
  then show "paddlenlp_instructions_formatting_function tokenizer ex
        = paddlenlp_instructions_formatting_function tokenizer ex'"
    unfolding paddlenlp_instructions_formatting_function_def
    by (intro format_instructions_cong [where ps = ps and cs = cs and cs' = cs']) simp_all
  fix v
  assume "snd (paddlenlp_instructions_formatting_function tokenizer ex) = Inr v"
  with h show "\<exists>texts. v = PList texts \<and> length texts = length ps"
    unfolding paddlenlp_instructions_formatting_function_def
    by (intro format_instructions_length [where ex = ex and tokenizer = tokenizer]) simp_all
qed

text \<open>
  Instances: one prompt, and completion lists that agree on their first entry only.
\<close>

theorem C10_completion_read_below_length_witness:
  "instructions_formatting_function demo_tokenizer
     (PDict [(''prompt'', PList [PStr ''a'']), (''completion'', PList [PStr ''x'', PStr ''y''])])
   = instructions_formatting_function demo_tokenizer
     (PDict [(''prompt'', PList [PStr ''a'']),
             (''completion'', PList [PStr ''x'', PStr ''z'', PStr ''w''])])
   \<and> paddlenlp_instructions_formatting_function demo_tokenizer
     (PDict [(''src'', PList [PStr ''a'']), (''tgt'', PList [PStr ''x'', PStr ''y''])])
   = paddlenlp_instructions_formatting_function demo_tokenizer
     (PDict [(''src'', PList [PStr ''a'']), (''tgt'', PList [PStr ''x''])])"
  using C10_completion_read_below_length
    [where tokenizer = demo_tokenizer
       and ex = "PDict [(''prompt'', PList [PStr ''a'']),
                        (''completion'', PList [PStr ''x'', PStr ''y''])]"
       and ex' = "PDict [(''prompt'', PList [PStr ''a'']),
                         (''completion'', PList [PStr ''x'', PStr ''z'', PStr ''w''])]"
       and ps = "[PStr ''a'']" and cs = "[PStr ''x'', PStr ''y'']"
       and cs' = "[PStr ''x'', PStr ''z'', PStr ''w'']", THEN conjunct1]
    C10_completion_read_below_length
    [where tokenizer = demo_tokenizer
       and ex = "PDict [(''src'', PList [PStr ''a'']), (''tgt'', PList [PStr ''x'', PStr ''y''])]"
       and ex' = "PDict [(''src'', PList [PStr ''a'']), (''tgt'', PList [PStr ''x''])]"
       and ps = "[PStr ''a'']" and cs = "[PStr ''x'', PStr ''y'']"
       and cs' = "[PStr ''x'']", THEN conjunct2]
  by simp

end
